theory Spec2Isabelle
  imports Complex_Main "HOL-Library.Word"
begin

section \<open>Microphone capture with voice activity detection\<close>

text \<open>
  A shallow embedding of \<^verbatim>\<open>src/interface/asr/microphone.py\<close>: the module function
  \<^verbatim>\<open>_resample\<close> and the class \<^verbatim>\<open>Microphone\<close> with its constructor, the frame
  fitting of \<^verbatim>\<open>_resample_to_vad_chunk\<close>, the capture callback and polling loop of
  \<^verbatim>\<open>record_until_silence\<close>, \<^verbatim>\<open>record_seconds\<close> and \<^verbatim>\<open>is_speech\<close>.

  Samples delivered by the device are 16-bit signed integers (\<^verbatim>\<open>dtype=np.int16\<close>),
  modelled as \<^typ>\<open>16 word\<close> and read with \<^const>\<open>sint\<close>. Python floats are modelled
  as reals. The two places where the source truncates a float quotient of integers
  (\<^verbatim>\<open>int(a / b)\<close> with \<open>a\<close> a product of integers) are written as the truncation
  of the exact quotient. Python's quotient is the nearest double; it has the same
  integer part as the exact quotient whenever \<open>a + b \<le> 2^53\<close>, and the theorems
  about these two places are stated within that bound.
\<close>

subsection \<open>Values\<close>

type_synonym sample = "16 word"
type_synonym byte = "8 word"

text \<open>Exceptions that can leave the modelled functions.\<close>

datatype error =
    ZeroDivisionError     \<comment> \<open>\<^verbatim>\<open>/ orig_sr\<close> with \<^verbatim>\<open>orig_sr == 0\<close>\<close>
  | ValueError            \<comment> \<open>raised inside \<^verbatim>\<open>signal.resample\<close>\<close>
  | PortAudioError        \<comment> \<open>raised by the device query of the audio library\<close>

text \<open>The \<^verbatim>\<open>device\<close> argument: \<^verbatim>\<open>int | str | None\<close>.\<close>

datatype device_sel = DeviceId int | DeviceName string

text \<open>
  What a call of the VAD iterator returns: \<^verbatim>\<open>None\<close>, or a dictionary that may hold
  the keys \<^verbatim>\<open>"start"\<close> and \<^verbatim>\<open>"end"\<close>.
\<close>

type_synonym vad_result = "(string \<times> int) list option"

text \<open>
  The arrays \<^verbatim>\<open>is_speech\<close> is called with, tagged with their dtype: the int16
  samples the device delivers and the float32 frames the VAD iterator takes.
\<close>

datatype ndarray = Int16 "sample list" | Float32 "real list"

text \<open>Python's \<^verbatim>\<open>int(x)\<close> on a float: truncation towards zero.\<close>

definition py_int :: "real \<Rightarrow> int" where
  "py_int x = (if 0 \<le> x then \<lfloor>x\<rfloor> else \<lceil>x\<rceil>)"

text \<open>
  Python's \<^verbatim>\<open>round(x)\<close> on a float: to the nearest integer, ties to the even one.
  The source never calls it; it is the rounding that the specification's formulas
  name, and is defined here to compare them with what the source computes.
\<close>

definition py_round :: "real \<Rightarrow> int" where
  "py_round x =
     (let f = \<lfloor>x\<rfloor>; d = x - real_of_int f
      in if d < 1 / 2 then f
         else if 1 / 2 < d then f + 1
         else if even f then f else f + 1)"

text \<open>Python's slice \<^verbatim>\<open>xs[:n]\<close>; a negative bound counts from the end.\<close>

definition slice_to :: "int \<Rightarrow> 'a list \<Rightarrow> 'a list" where
  "slice_to n xs =
     (if 0 \<le> n then take (nat n) xs else take (length xs - nat (- n)) xs)"

text \<open>\<^verbatim>\<open>ndarray.tobytes()\<close> of an int16 array: two bytes per sample, low byte first.\<close>

definition tobytes :: "sample list \<Rightarrow> byte list" where
  "tobytes xs = concat (map (\<lambda>w. [ucast w, ucast (drop_bit 8 w)]) xs)"

text \<open>\<^verbatim>\<open>astype(np.float32)\<close> of an int16 array; every int16 value is a float32.\<close>

definition astype_float32 :: "sample list \<Rightarrow> real list" where
  "astype_float32 xs = map (\<lambda>w. real_of_int (sint w)) xs"

subsection \<open>The libraries the module calls\<close>

text \<open>
  The numeric resampler, the VAD iterator and the audio device are not code of this
  module. They are parameters of the model:
  \<^item> \<open>signal_resample audio num\<close> is \<^verbatim>\<open>signal.resample(audio, num).astype(audio.dtype)\<close>,
    or the exception the library raises (it returns \<open>num\<close> samples when \<open>num\<close> is
    at least 1, and rejects a request for no samples);
  \<^item> \<open>VADIterator thr sil pad\<close> is a fresh iterator over the loaded model,
    \<open>vad_call it frame\<close> one call of it, returning the result and the iterator's
    next state;
  \<^item> \<open>sd_rec frames rate dev\<close> is channel 0 of the blocking recording
    \<^verbatim>\<open>sd.rec(frames, samplerate=rate, channels=1, dtype=np.int16, device=dev)\<close>;
  \<^item> \<open>query_devices dev\<close> is the \<^verbatim>\<open>default_samplerate\<close> that \<^verbatim>\<open>sd.query_devices\<close>
    reports for the device (for the default input device when \<open>dev\<close> is \<open>None\<close>),
    or the error it raises.
\<close>

record 'v externals =
  signal_resample :: "sample list \<Rightarrow> int \<Rightarrow> error + sample list"
  VADIterator :: "real \<Rightarrow> int \<Rightarrow> int \<Rightarrow> 'v"
  vad_call :: "'v \<Rightarrow> real list \<Rightarrow> vad_result \<times> 'v"
  sd_rec :: "int \<Rightarrow> int \<Rightarrow> device_sel option \<Rightarrow> sample list"
  query_devices :: "device_sel option \<Rightarrow> error + real"

subsection \<open>\<^verbatim>\<open>_resample\<close>\<close>

definition resample :: "'v externals \<Rightarrow> sample list \<Rightarrow> int \<Rightarrow> int \<Rightarrow> error + sample list" where
  "resample ext audio orig_sr target_sr =
     (if orig_sr = target_sr then Inr audio
      else if orig_sr = 0 then Inl ZeroDivisionError
      else
        let num_samples =
              py_int (real_of_int (int (length audio) * target_sr) / real_of_int orig_sr)
        in signal_resample ext audio num_samples)"

subsection \<open>The class \<^verbatim>\<open>Microphone\<close>\<close>

definition VAD_SAMPLE_RATE :: int where
  "VAD_SAMPLE_RATE = 16000"

definition VAD_CHUNK_SAMPLES :: int where
  "VAD_CHUNK_SAMPLES = 512"

record 'v microphone =
  device :: "device_sel option"
  threshold :: real
  min_silence_duration_ms :: int
  speech_pad_ms :: int
  device_sample_rate :: int
  chunk_size :: int
  vad_iterator :: 'v

text \<open>\<^verbatim>\<open>_reset_vad\<close>: a fresh iterator built from the stored configuration.\<close>

definition reset_vad :: "'v externals \<Rightarrow> 'v microphone \<Rightarrow> 'v microphone" where
  "reset_vad ext m =
     m\<lparr>vad_iterator :=
         VADIterator ext (threshold m) (min_silence_duration_ms m) (speech_pad_ms m)\<rparr>"

text \<open>
  \<^verbatim>\<open>__init__\<close>. The four arguments are stored as given, the sample rate is the
  truncated \<^verbatim>\<open>default_samplerate\<close> of the device, and the chunk size is derived
  from it. The closing \<^verbatim>\<open>self._reset_vad()\<close> builds the first iterator from the
  fields just stored.
\<close>

definition init ::
  "'v externals \<Rightarrow> device_sel option \<Rightarrow> real \<Rightarrow> int \<Rightarrow> int \<Rightarrow> error + 'v microphone" where
  "init ext dev thr sil pad =
     (case query_devices ext dev of
        Inl e \<Rightarrow> Inl e
      | Inr default_samplerate \<Rightarrow>
          let rate = py_int default_samplerate;
              chunk = py_int (real_of_int (VAD_CHUNK_SAMPLES * rate) / real_of_int VAD_SAMPLE_RATE)
          in Inr \<lparr>device = dev, threshold = thr, min_silence_duration_ms = sil,
                  speech_pad_ms = pad, device_sample_rate = rate, chunk_size = chunk,
                  vad_iterator = VADIterator ext thr sil pad\<rparr>)"

text \<open>
  The second half of \<^verbatim>\<open>_resample_to_vad_chunk\<close>: truncate to the first \<open>n\<close>
  samples, or pad with zeros on the right (\<^verbatim>\<open>np.pad\<close> with its default constant 0).
\<close>

definition fit_to_frame :: "int \<Rightarrow> sample list \<Rightarrow> sample list" where
  "fit_to_frame n resampled =
     (if n < int (length resampled) then slice_to n resampled
      else if int (length resampled) < n
        then resampled @ replicate (nat (n - int (length resampled))) 0
      else resampled)"

definition resample_to_vad_chunk ::
  "'v externals \<Rightarrow> 'v microphone \<Rightarrow> sample list \<Rightarrow> error + real list" where
  "resample_to_vad_chunk ext m audio =
     (case (if device_sample_rate m \<noteq> VAD_SAMPLE_RATE
            then resample ext audio (device_sample_rate m) VAD_SAMPLE_RATE
            else Inr audio) of
        Inl e \<Rightarrow> Inl e
      | Inr resampled \<Rightarrow> Inr (astype_float32 (fit_to_frame VAD_CHUNK_SAMPLES resampled)))"

subsection \<open>\<^verbatim>\<open>record_until_silence\<close>\<close>

text \<open>
  The variables the callback closes over, with \<open>self\<close> (the callback advances
  \<^verbatim>\<open>self.vad_iterator\<close>).
\<close>

record 'v capture =
  self :: "'v microphone"
  audio_chunks :: "sample list list"
  speech_started :: bool
  speech_ended :: bool

text \<open>\<^verbatim>\<open>key in result\<close> for a dictionary.\<close>

definition has_key :: "string \<Rightarrow> (string \<times> int) list \<Rightarrow> bool" where
  "has_key k d = (map_of d k \<noteq> None)"

text \<open>
  One invocation of \<^verbatim>\<open>callback\<close> with the delivered channel \<^verbatim>\<open>indata[:, 0]\<close>.
  \<open>Inl\<close> is an exception leaving the callback.
\<close>

definition callback :: "'v externals \<Rightarrow> 'v capture \<Rightarrow> sample list \<Rightarrow> error + 'v capture" where
  "callback ext st chunk =
     (if speech_ended st then Inr st
      else
        let st1 = st\<lparr>audio_chunks := audio_chunks st @ [chunk]\<rparr> in
        case resample_to_vad_chunk ext (self st1) chunk of
          Inl e \<Rightarrow> Inl e
        | Inr vad_chunk \<Rightarrow>
            let (result, it) = vad_call ext (vad_iterator (self st1)) vad_chunk;
                st2 = st1\<lparr>self := (self st1)\<lparr>vad_iterator := it\<rparr>\<rparr>
            in (case result of
                  None \<Rightarrow> Inr st2
                | Some d \<Rightarrow>
                    if d = [] then Inr st2
                    else
                      let st3 = (if has_key ''start'' d
                                 then st2\<lparr>speech_started := True\<rparr> else st2);
                          st4 = (if has_key ''end'' d
                                 then st3\<lparr>speech_ended := True\<rparr> else st3)
                      in Inr st4))"

text \<open>The callback run on each of a sequence of delivered chunks, in order.\<close>

fun deliver :: "'v externals \<Rightarrow> 'v capture \<Rightarrow> sample list list \<Rightarrow> error + 'v capture" where
  "deliver ext st [] = Inr st"
| "deliver ext st (chunk # chunks) =
     (case callback ext st chunk of
        Inl e \<Rightarrow> Inl e
      | Inr st' \<Rightarrow> deliver ext st' chunks)"

text \<open>
  The polling loop
  \<^verbatim>\<open>while not speech_ended and (time.time() - start_time) < timeout: sd.sleep(10)\<close>.
  The audio thread runs beside it; one run is described by the rounds of the loop,
  each round being the chunks the device delivered since the previous test of the
  loop condition and the clock value that test reads. The loop has no bound of its
  own, so a run whose rounds are used up while the condition still holds has not
  returned: \<open>None\<close>. An exception leaving the callback ends the modelled run with that
  error; what the audio library does with it is not code of this module.
\<close>

fun poll_loop ::
  "'v externals \<Rightarrow> real \<Rightarrow> real \<Rightarrow> 'v capture \<Rightarrow> (sample list list \<times> real) list
     \<Rightarrow> (error + 'v capture) option" where
  "poll_loop ext timeout start_time st [] = None"
| "poll_loop ext timeout start_time st ((chunks, now) # rounds) =
     (case deliver ext st chunks of
        Inl e \<Rightarrow> Some (Inl e)
      | Inr st' \<Rightarrow>
          if \<not> speech_ended st' \<and> now - start_time < timeout
          then poll_loop ext timeout start_time st' rounds
          else Some (Inr st'))"

text \<open>
  \<^verbatim>\<open>record_until_silence(timeout)\<close>. \<open>closing\<close> are the chunks delivered between the
  last test of the loop condition and the closing of the stream. The result is the
  returned bytes and the microphone with its advanced iterator.
\<close>

definition record_until_silence ::
  "'v externals \<Rightarrow> 'v microphone \<Rightarrow> real \<Rightarrow> real \<Rightarrow> (sample list list \<times> real) list
     \<Rightarrow> sample list list \<Rightarrow> (error + byte list \<times> 'v microphone) option" where
  "record_until_silence ext m timeout start_time rounds closing =
     (let st0 = \<lparr>self = reset_vad ext m, audio_chunks = [],
                 speech_started = False, speech_ended = False\<rparr> in
      case poll_loop ext timeout start_time st0 rounds of
        None \<Rightarrow> None
      | Some (Inl e) \<Rightarrow> Some (Inl e)
      | Some (Inr st1) \<Rightarrow>
          (case deliver ext st1 closing of
             Inl e \<Rightarrow> Some (Inl e)
           | Inr st2 \<Rightarrow>
               if audio_chunks st2 \<noteq> [] then
                 (case resample ext (concat (audio_chunks st2))
                         (device_sample_rate (self st2)) VAD_SAMPLE_RATE of
                    Inl e \<Rightarrow> Some (Inl e)
                  | Inr audio_16k \<Rightarrow> Some (Inr (tobytes audio_16k, self st2)))
               else Some (Inr ([], self st2))))"

subsection \<open>\<^verbatim>\<open>record_seconds\<close> and \<^verbatim>\<open>is_speech\<close>\<close>

definition record_seconds :: "'v externals \<Rightarrow> 'v microphone \<Rightarrow> real \<Rightarrow> error + byte list" where
  "record_seconds ext m duration =
     (let samples = py_int (real_of_int (device_sample_rate m) * duration);
          audio = sd_rec ext samples (device_sample_rate m) (device m)
      in case resample ext audio (device_sample_rate m) VAD_SAMPLE_RATE of
           Inl e \<Rightarrow> Inl e
         | Inr audio_16k \<Rightarrow> Inr (tobytes audio_16k))"

text \<open>
  \<^verbatim>\<open>is_speech\<close>: an array that is not float32 is converted and divided by 32768
  (exact for int16 values), then the iterator stored in the microphone is called.
\<close>

definition is_speech :: "'v externals \<Rightarrow> 'v microphone \<Rightarrow> ndarray \<Rightarrow> bool \<times> 'v microphone" where
  "is_speech ext m audio_chunk =
     (let frame = (case audio_chunk of
                     Float32 xs \<Rightarrow> xs
                   | Int16 ws \<Rightarrow> map (\<lambda>x. x / 32768) (astype_float32 ws));
          (result, it) = vad_call ext (vad_iterator m) frame
      in ((case result of None \<Rightarrow> False | Some d \<Rightarrow> has_key ''start'' d),
          m\<lparr>vad_iterator := it\<rparr>))"

subsection \<open>Stand-ins for the libraries\<close>

text \<open>
  A concrete instance of the library parameters, used only to evaluate the model on
  concrete inputs: a resampler that returns the requested number of (silent)
  samples and raises \<open>ValueError\<close> when asked for none, as the library's transform
  does, a device that reports the given default sample rate and records silence,
  and an iterator that counts its calls and reports a start on a frame whose first
  sample reaches the threshold one half. With them a microphone on a 44100 Hz
  device, and a capture in which the end of speech has been seen.
\<close>

definition test_microphone :: "nat microphone" where
  "test_microphone =
     \<lparr>device = None, threshold = 1 / 2, min_silence_duration_ms = 500,
      speech_pad_ms = 100, device_sample_rate = 44100, chunk_size = 1411,
      vad_iterator = 0\<rparr>"

definition ended_capture :: "nat capture" where
  "ended_capture =
     \<lparr>self = test_microphone, audio_chunks = [ [1, 2] ],
      speech_started = True, speech_ended = True\<rparr>"

definition test_externals :: "real \<Rightarrow> nat externals" where
  "test_externals rate =
     \<lparr>signal_resample = (\<lambda>audio num.
         if 1 \<le> num then Inr (replicate (nat num) 0) else Inl ValueError),
      VADIterator = (\<lambda>thr sil pad. 0),
      vad_call = (\<lambda>it frame.
         (if frame \<noteq> [] \<and> 1 / 2 \<le> hd frame then Some [(''start'', int it)] else None,
          Suc it)),
      sd_rec = (\<lambda>frames r dev. replicate (nat frames) 0),
      query_devices = (\<lambda>dev. Inr rate)\<rparr>"

section \<open>Properties\<close>

subsection \<open>Arithmetic of the truncations\<close>

lemma py_int_quotient:
  assumes "0 \<le> a" and "0 < b"
  shows "py_int (real_of_int a / real_of_int b) = a div b"
  using assms by (simp add: py_int_def floor_divide_of_int_eq)

lemma py_int_of_int [simp]: "py_int (real_of_int n) = n"
  by (simp add: py_int_def)

lemma length_tobytes: "length (tobytes xs) = 2 * length xs"
  by (induction xs) (simp_all add: tobytes_def)

lemma length_fit_to_frame:
  assumes "0 \<le> n"
  shows "int (length (fit_to_frame n xs)) = n"
  using assms by (auto simp: fit_to_frame_def slice_to_def)

lemma resample_same_rate: "resample ext s r r = Inr s"
  by (simp add: resample_def)

lemma length_resample:
  assumes "0 < from_rate" and "0 < to_rate" and "from_rate \<noteq> to_rate"
    and "1 \<le> int (length s) * to_rate div from_rate"
    and "\<forall>xs n. 1 \<le> n \<longrightarrow> (\<exists>ys. signal_resample ext xs n = Inr ys \<and> length ys = nat n)"
  shows "\<exists>ys. resample ext s from_rate to_rate = Inr ys
           \<and> int (length ys) = int (length s) * to_rate div from_rate"
proof -
  define n where "n = int (length s) * to_rate div from_rate"
  have nn: "0 \<le> int (length s) * to_rate"
    using assms(2) by simp
  have num: "py_int (real_of_int (int (length s) * to_rate) / real_of_int from_rate) = n"
    unfolding n_def using nn assms(1) by (rule py_int_quotient)
  have "1 \<le> n"
    using assms(4) by (simp add: n_def)
  with assms(5) obtain ys where "signal_resample ext s n = Inr ys" and "length ys = nat n"
    by blast
  moreover have "resample ext s from_rate to_rate = signal_resample ext s n"
    using assms(1,3) unfolding resample_def Let_def num by simp
  ultimately have "resample ext s from_rate to_rate = Inr ys \<and> int (length ys) = n"
    using \<open>1 \<le> n\<close> by simp
  then show ?thesis
    unfolding n_def by blast
qed

lemma chunk_size_init:
  assumes "init ext dev thr sil pad = Inr m" and "0 \<le> device_sample_rate m"
  shows "chunk_size m = 512 * device_sample_rate m div 16000"
proof -
  from assms(1) obtain r where q: "query_devices ext dev = Inr r"
    and rate: "device_sample_rate m = py_int r"
    and chunk: "chunk_size m
        = py_int (real_of_int (VAD_CHUNK_SAMPLES * py_int r) / real_of_int VAD_SAMPLE_RATE)"
    by (auto simp: init_def Let_def split: sum.splits)
  have "0 \<le> VAD_CHUNK_SAMPLES * py_int r"
    using assms(2) rate by (simp add: VAD_CHUNK_SAMPLES_def)
  moreover have "0 < VAD_SAMPLE_RATE"
    by (simp add: VAD_SAMPLE_RATE_def)
  ultimately have "chunk_size m = VAD_CHUNK_SAMPLES * py_int r div VAD_SAMPLE_RATE"
    unfolding chunk by (rule py_int_quotient)
  then show ?thesis
    by (simp add: rate VAD_CHUNK_SAMPLES_def VAD_SAMPLE_RATE_def)
qed

lemma poll_loop_no_chunks:
  assumes "\<forall>r \<in> set rounds. fst r = []"
    and "\<exists>r \<in> set rounds. start_time \<le> snd r"
  shows "poll_loop ext 0 start_time st rounds = Some (Inr st)"
  using assms
proof (induction rounds)
  case Nil
  then show ?case by simp
next
  case (Cons r rounds)
  obtain chunks now where r: "r = (chunks, now)"
    by (cases r)
  with Cons.prems(1) have e: "chunks = []"
    by simp
  show ?case
  proof (cases "start_time \<le> now")
    case True
    then show ?thesis by (simp add: r e)
  next
    case False
    with Cons.prems(2) r have "\<exists>r \<in> set rounds. start_time \<le> snd r"
      by auto
    with Cons.IH Cons.prems(1) have "poll_loop ext 0 start_time st rounds = Some (Inr st)"
      by simp
    then show ?thesis by (simp add: r e)
  qed
qed

subsection \<open>The callback after the end of speech\<close>

text \<open>
  C1. Once \<open>speech_ended\<close> holds, an invocation of the capture callback returns at
  once: it appends nothing to the accumulation buffer, does not call the VAD
  iterator, and leaves both flags as they are. The same holds for any sequence of
  further invocations.
\<close>

theorem callback_after_end_noop:
  assumes "speech_ended st"
  shows "callback ext st chunk = Inr st \<and> deliver ext st chunks = Inr st"
proof
  show step: "callback ext st chunk = Inr st" for chunk
    using assms by (simp add: callback_def)
  show "deliver ext st chunks = Inr st"
    by (induction chunks) (simp_all add: step)
qed

theorem callback_after_end_noop_witness:
  "speech_ended ended_capture
   \<and> callback (test_externals 44100) ended_capture [3, 4] = Inr ended_capture
   \<and> deliver (test_externals 44100) ended_capture [ [3, 4], [5] ] = Inr ended_capture"
proof -
  have h: "speech_ended ended_capture"
    by (simp add: ended_capture_def)
  from callback_after_end_noop [OF h] show ?thesis
    using h by blast
qed

subsection \<open>Resampling\<close>

text \<open>
  C4. Resampling between equal rates returns the input sequence itself, for every
  sequence (the empty one included) and every rate.
\<close>

theorem resample_same_rate_identity: "resample ext s r r = Inr s"
  by (simp add: resample_def)

text \<open>
  C2, as the source has it. Between two different positive rates, for an input
  long enough that \<open>\<lfloor>len(s) * to_rate / from_rate\<rfloor>\<close> is at least 1, and with a
  numeric resampler that returns as many samples as it is asked for when asked for
  at least one, the result has \<open>\<lfloor>len(s) * to_rate / from_rate\<rfloor>\<close> samples: the
  quotient is truncated by \<^verbatim>\<open>int\<close>, not rounded. (The bound on the operands is the
  one within which the double quotient has the integer part of the exact one.)
\<close>

theorem resample_length_floor:
  assumes "0 < from_rate" and "0 < to_rate" and "from_rate \<noteq> to_rate"
    and "1 \<le> int (length s) * to_rate div from_rate"
    and "int (length s) * to_rate + from_rate \<le> 2 ^ 53"
    and "\<forall>xs n. 1 \<le> n \<longrightarrow> (\<exists>ys. signal_resample ext xs n = Inr ys \<and> length ys = nat n)"
  shows "\<exists>ys. resample ext s from_rate to_rate = Inr ys
           \<and> int (length ys) = int (length s) * to_rate div from_rate"
  using assms(1-4,6) by (rule length_resample)

theorem resample_length_floor_witness:
  "\<exists>ys. resample (test_externals 44100) (replicate 1411 0) 44100 16000 = Inr ys
           \<and> int (length ys) = 511"
  using resample_length_floor [where from_rate = 44100 and to_rate = 16000
      and s = "replicate 1411 0" and ext = "test_externals 44100"]
  by (simp add: test_externals_def)

text \<open>
  C2, as the specification words it, fails. One device chunk of 1411 samples at
  44100 Hz resamples to 511 samples, where rounding \<open>1411 * 16000 / 44100 = 511.93\<dots>\<close>
  gives 512.
\<close>

theorem resample_length_round_counterexample:
  "map_sum id length (resample (test_externals 44100) (replicate 1411 0) 44100 16000) = Inr 511
   \<and> py_round (real (length (replicate 1411 (0::sample))) * 16000 / 44100) = 512"
  by (simp add: resample_def test_externals_def py_int_def py_round_def Let_def)

subsection \<open>Fitting a frame\<close>

text \<open>
  C3. For every sample sequence and every frame size \<open>N\<close> (a size is not negative),
  frame fitting returns exactly \<open>N\<close> samples: the first \<open>N\<close> of a longer sequence, a
  shorter sequence followed by zeros, a sequence of \<open>N\<close> samples as it is. It is a
  total function of its input and raises nothing. In \<^verbatim>\<open>_resample_to_vad_chunk\<close>,
  where \<open>N\<close> is 512, it is applied to whatever the resampling before it returns: the
  frame is that sequence fitted to 512 samples, as floats. When the resampling
  raises, frame fitting is not reached and that error is the outcome.
\<close>

theorem fit_to_frame_exact:
  assumes "0 \<le> N"
  shows "int (length (fit_to_frame N s)) = N
       \<and> (N < int (length s) \<longrightarrow> fit_to_frame N s = take (nat N) s)
       \<and> (int (length s) < N \<longrightarrow>
            fit_to_frame N s = s @ replicate (nat N - length s) 0)
       \<and> (int (length s) = N \<longrightarrow> fit_to_frame N s = s)
       \<and> (resample ext a (device_sample_rate m) 16000 = Inr r \<longrightarrow>
            resample_to_vad_chunk ext m a = Inr (astype_float32 (fit_to_frame 512 r))
            \<and> length (astype_float32 (fit_to_frame 512 r)) = 512)
       \<and> (resample ext a (device_sample_rate m) 16000 = Inl e \<longrightarrow>
            resample_to_vad_chunk ext m a = Inl e)"
proof (intro conjI impI)
  show "int (length (fit_to_frame N s)) = N"
    using assms by (rule length_fit_to_frame)
  show "fit_to_frame N s = take (nat N) s" if "N < int (length s)"
    using that assms by (simp add: fit_to_frame_def slice_to_def)
  show "fit_to_frame N s = s @ replicate (nat N - length s) 0" if "int (length s) < N"
  proof -
    have "nat (N - int (length s)) = nat N - length s"
      by simp
    with that show ?thesis
      by (simp add: fit_to_frame_def)
  qed
  show "fit_to_frame N s = s" if "int (length s) = N"
    using that by (simp add: fit_to_frame_def)
  show "resample_to_vad_chunk ext m a = Inr (astype_float32 (fit_to_frame 512 r))"
    if "resample ext a (device_sample_rate m) 16000 = Inr r"
    using that
    by (cases "device_sample_rate m = 16000")
      (simp_all add: resample_to_vad_chunk_def VAD_SAMPLE_RATE_def VAD_CHUNK_SAMPLES_def
        resample_same_rate)
  show "length (astype_float32 (fit_to_frame 512 r)) = 512"
    using length_fit_to_frame [of 512 r] by (simp add: astype_float32_def)
  show "resample_to_vad_chunk ext m a = Inl e"
    if "resample ext a (device_sample_rate m) 16000 = Inl e"
    using that
    by (cases "device_sample_rate m = 16000")
      (simp_all add: resample_to_vad_chunk_def VAD_SAMPLE_RATE_def resample_same_rate)
qed

theorem fit_to_frame_exact_witness:
  "int (length (fit_to_frame 4 [1, 2, 3, 4, 5, 6])) = 4
   \<and> fit_to_frame 4 [1, 2, 3, 4, 5, 6] = [1, 2, 3, 4]
   \<and> fit_to_frame 4 [7, 8] = [7, 8, 0, 0]
   \<and> fit_to_frame 4 [1, 2, 3, 4] = [1, 2, 3, 4]
   \<and> resample_to_vad_chunk (test_externals 16000)
        (test_microphone\<lparr>device_sample_rate := 16000, chunk_size := 512\<rparr>) [7, 8]
       = Inr (astype_float32 ([7, 8] @ replicate 510 0))
   \<and> resample_to_vad_chunk (test_externals 44100) test_microphone [7, 8] = Inl ValueError"
proof -
  have n4: "(0::int) \<le> 4" and n512: "(0::int) \<le> 512"
    by simp_all
  have r16: "resample (test_externals 16000) [7, 8]
      (device_sample_rate (test_microphone\<lparr>device_sample_rate := 16000, chunk_size := 512\<rparr>))
      16000 = Inr [7, 8]"
    by (simp add: resample_def)
  have r44: "resample (test_externals 44100) [7, 8] (device_sample_rate test_microphone) 16000
      = Inl ValueError"
    by (simp add: resample_def test_externals_def test_microphone_def py_int_def)
  note long = fit_to_frame_exact [OF n4, where s = "[1, 2, 3, 4, 5, 6]"]
  note short = fit_to_frame_exact [OF n4, where s = "[7, 8]"]
  note same = fit_to_frame_exact [OF n4, where s = "[1, 2, 3, 4]"]
  note frame = fit_to_frame_exact [OF n512, where s = "[7, 8]" and a = "[7, 8]"
      and r = "[7, 8]" and ext = "test_externals 16000"
      and m = "test_microphone\<lparr>device_sample_rate := 16000, chunk_size := 512\<rparr>"]
  note raised = fit_to_frame_exact [OF n4, where a = "[7, 8]" and e = ValueError
      and ext = "test_externals 44100" and m = test_microphone]
  have 1: "int (length (fit_to_frame 4 [1, 2, 3, 4, 5, 6])) = 4"
    by (rule long [THEN conjunct1])
  have "fit_to_frame 4 [1, 2, 3, 4, 5, 6] = take (nat 4) [1, 2, 3, 4, 5, 6]"
    using long [THEN conjunct2, THEN conjunct1] by simp
  then have 2: "fit_to_frame 4 [1, 2, 3, 4, 5, 6] = [1, 2, 3, 4]"
    by simp
  have "fit_to_frame 4 [7, 8] = [7, 8] @ replicate (nat 4 - length [7, 8 :: sample]) 0"
    using short [THEN conjunct2, THEN conjunct2, THEN conjunct1] by simp
  then have 3: "fit_to_frame 4 [7, 8] = [7, 8, 0, 0]"
    by (simp add: numeral_eq_Suc)
  have 4: "fit_to_frame 4 [1, 2, 3, 4] = [1, 2, 3, 4]"
    using same [THEN conjunct2, THEN conjunct2, THEN conjunct2, THEN conjunct1] by simp
  have "fit_to_frame 512 [7, 8] = [7, 8] @ replicate (nat 512 - length [7, 8 :: sample]) 0"
    using frame [THEN conjunct2, THEN conjunct2, THEN conjunct1] by simp
  then have fit: "fit_to_frame 512 [7, 8] = [7, 8] @ replicate 510 0"
    by simp
  have "resample_to_vad_chunk (test_externals 16000)
        (test_microphone\<lparr>device_sample_rate := 16000, chunk_size := 512\<rparr>) [7, 8]
       = Inr (astype_float32 (fit_to_frame 512 [7, 8]))"
    using frame [THEN conjunct2, THEN conjunct2, THEN conjunct2, THEN conjunct2,
        THEN conjunct1, THEN mp, OF r16]
    by (rule conjunct1)
  then have 5: "resample_to_vad_chunk (test_externals 16000)
        (test_microphone\<lparr>device_sample_rate := 16000, chunk_size := 512\<rparr>) [7, 8]
       = Inr (astype_float32 ([7, 8] @ replicate 510 0))"
    by (simp only: fit)
  have 6: "resample_to_vad_chunk (test_externals 44100) test_microphone [7, 8]
      = Inl ValueError"
    by (rule raised [THEN conjunct2, THEN conjunct2, THEN conjunct2, THEN conjunct2,
        THEN conjunct2, THEN mp, OF r44])
  from 1 2 3 4 5 6 show ?thesis
    by blast
qed

subsection \<open>Recording\<close>

text \<open>
  C5. With timeout 0, when the device delivers no chunk in any round of the polling
  loop nor while the stream closes, and the clock reaches the start time at some
  test of the loop condition (at the first one, unless the clock ran backwards),
  \<^verbatim>\<open>record_until_silence\<close> returns, raises nothing, and its result is the empty
  byte sequence.
\<close>

theorem record_until_silence_timeout_zero:
  assumes "\<forall>r \<in> set rounds. fst r = []"
    and "\<exists>r \<in> set rounds. start_time \<le> snd r"
  shows "record_until_silence ext m 0 start_time rounds []
           = Some (Inr ([], reset_vad ext m))"
  by (simp add: record_until_silence_def poll_loop_no_chunks [OF assms])

theorem record_until_silence_timeout_zero_witness:
  "record_until_silence (test_externals 44100) test_microphone 0 10
         [([], 10), ([], 11)] []
       = Some (Inr ([], reset_vad (test_externals 44100) test_microphone))"
  using record_until_silence_timeout_zero
    [where rounds = "[([], 10), ([], 11)]" and start_time = 10
       and ext = "test_externals 44100" and m = test_microphone]
  by simp

text \<open>
  C6. On a device whose rate is 44100, \<^verbatim>\<open>record_seconds(1.0)\<close> asks the device for
  44100 frames and the resampler for 16000 samples; when both deliver what they
  are asked for, the result is 32000 bytes, which lies within one sample of 32000.
\<close>

theorem record_seconds_one_second_44100:
  assumes "device_sample_rate m = 44100"
    and "length (sd_rec ext 44100 44100 (device m)) = 44100"
    and "\<forall>xs. \<exists>ys. signal_resample ext xs 16000 = Inr ys \<and> length ys = 16000"
  shows "\<exists>bs. record_seconds ext m 1 = Inr bs \<and> length bs = 32000
            \<and> 31998 \<le> length bs \<and> length bs \<le> 32002"
proof -
  from assms(3) obtain ys
    where "signal_resample ext (sd_rec ext 44100 44100 (device m)) 16000 = Inr ys"
      and "length ys = 16000"
    by blast
  with assms(1,2) show ?thesis
    by (simp add: record_seconds_def resample_def VAD_SAMPLE_RATE_def py_int_def
        length_tobytes)
qed

theorem record_seconds_one_second_44100_witness:
  "device_sample_rate test_microphone = 44100
   \<and> (\<exists>bs. record_seconds (test_externals 44100) test_microphone 1 = Inr bs
          \<and> length bs = 32000 \<and> 31998 \<le> length bs \<and> length bs \<le> 32002)"
  using record_seconds_one_second_44100 [of test_microphone "test_externals 44100"]
  by (simp add: test_microphone_def test_externals_def)

subsection \<open>Construction\<close>

text \<open>
  C7, as the source has it. The constructor checks none of its arguments: whenever
  the device query succeeds, the code of the constructor raises nothing, and the
  threshold, the minimum silence duration and the speech padding are stored, and
  handed to the VAD iterator, exactly as given.
\<close>

theorem init_stores_threshold:
  assumes "query_devices ext dev = Inr rate"
  shows "\<exists>m. init ext dev thr sil pad = Inr m
           \<and> threshold m = thr \<and> min_silence_duration_ms m = sil \<and> speech_pad_ms m = pad
           \<and> vad_iterator m = VADIterator ext thr sil pad"
  using assms by (simp add: init_def Let_def)

theorem init_stores_threshold_witness:
  "query_devices (test_externals 44100) None = Inr 44100
   \<and> (\<exists>m. init (test_externals 44100) None (3 / 2) 500 100 = Inr m
           \<and> threshold m = 3 / 2 \<and> min_silence_duration_ms m = 500 \<and> speech_pad_ms m = 100
           \<and> vad_iterator m = VADIterator (test_externals 44100) (3 / 2) 500 100)"
proof -
  have q: "query_devices (test_externals 44100) None = Inr 44100"
    by (simp add: test_externals_def)
  from init_stores_threshold [OF q, of "3 / 2" 500 100] show ?thesis
    using q by blast
qed

text \<open>
  C7, as the specification words it, fails. A threshold of 1.5 lies outside
  \<open>[0, 1]\<close>; construction with it succeeds, and the microphone holds 1.5, not a
  clamped value.
\<close>

theorem init_threshold_counterexample:
  "\<not> (0 \<le> (3 / 2 :: real) \<and> (3 / 2 :: real) \<le> 1)
   \<and> init (test_externals 44100) None (3 / 2) 500 100
       = Inr (test_microphone\<lparr>threshold := 3 / 2\<rparr>)"
  by (simp add: init_def test_externals_def test_microphone_def Let_def py_int_def
      VAD_CHUNK_SAMPLES_def VAD_SAMPLE_RATE_def)

text \<open>
  C8. The chunk size is meant to be \<open>512 * device_rate / 16000\<close> rounded, and the
  comment above its computation says the chunk is taken slightly larger so that
  there are always enough samples after resampling. The source truncates instead.
  At 22050 Hz it requests 705 samples, where rounding \<open>705.6\<close> gives 706; a chunk of
  705 samples resamples to 511, one short of the frame, and a chunk of 706 to 512.
\<close>

theorem chunk_size_truncated_at_22050:
  "init (test_externals 22050) None (1 / 2) 500 100
     = Inr (test_microphone\<lparr>device_sample_rate := 22050, chunk_size := 705\<rparr>)
   \<and> py_round (512 * 22050 / 16000) = 706
   \<and> resample (test_externals 22050) (replicate 705 0) 22050 16000 = Inr (replicate 511 0)
   \<and> resample (test_externals 22050) (replicate 706 0) 22050 16000 = Inr (replicate 512 0)"
  by (simp add: init_def resample_def test_externals_def test_microphone_def Let_def
      py_int_def py_round_def VAD_CHUNK_SAMPLES_def VAD_SAMPLE_RATE_def)

subsection \<open>Classifying one frame\<close>

text \<open>
  C9. \<^verbatim>\<open>is_speech\<close> answers true exactly when the call of the VAD iterator on
  the frame returns a dictionary holding \<^verbatim>\<open>"start"\<close>. The iterator called is the
  one the microphone holds, which is left in the state that call produces: nothing
  resets it. An int16 frame is treated as the float frame of its samples divided by
  32768.
\<close>

theorem is_speech_start_event:
  "fst (is_speech ext m (Float32 xs))
     = (\<exists>d. fst (vad_call ext (vad_iterator m) xs) = Some d \<and> ''start'' \<in> fst ` set d)
   \<and> snd (is_speech ext m (Float32 xs))
       = m\<lparr>vad_iterator := snd (vad_call ext (vad_iterator m) xs)\<rparr>
   \<and> is_speech ext m (Int16 ws)
       = is_speech ext m (Float32 (map (\<lambda>w. real_of_int (sint w) / 32768) ws))"
proof (intro conjI)
  show "fst (is_speech ext m (Float32 xs))
     = (\<exists>d. fst (vad_call ext (vad_iterator m) xs) = Some d \<and> ''start'' \<in> fst ` set d)"
    by (auto simp: is_speech_def has_key_def map_of_eq_None_iff
        split: prod.splits option.splits)
  show "snd (is_speech ext m (Float32 xs))
       = m\<lparr>vad_iterator := snd (vad_call ext (vad_iterator m) xs)\<rparr>"
    by (simp add: is_speech_def split: prod.splits)
  have "map (\<lambda>x. x / 32768) (astype_float32 ws)
          = map (\<lambda>w. real_of_int (sint w) / 32768) ws"
    by (simp add: astype_float32_def)
  then show "is_speech ext m (Int16 ws)
       = is_speech ext m (Float32 (map (\<lambda>w. real_of_int (sint w) / 32768) ws))"
    by (simp add: is_speech_def)
qed

theorem is_speech_start_event_witness:
  "is_speech (test_externals 44100) (test_microphone\<lparr>vad_iterator := 7\<rparr>) (Int16 [16384, 0])
     = (True, test_microphone\<lparr>vad_iterator := 8\<rparr>)
   \<and> is_speech (test_externals 44100) (test_microphone\<lparr>vad_iterator := 7\<rparr>) (Int16 [16383, 0])
     = (False, test_microphone\<lparr>vad_iterator := 8\<rparr>)"
  using is_speech_start_event [where ext = "test_externals 44100"
      and m = "test_microphone\<lparr>vad_iterator := 7\<rparr>"
      and xs = "[1 / 2, 0]" and ws = "[16384, 0]"]
    is_speech_start_event [where ext = "test_externals 44100"
      and m = "test_microphone\<lparr>vad_iterator := 7\<rparr>"
      and xs = "[16383 / 32768, 0]" and ws = "[16383, 0]"]
  by (simp add: test_externals_def prod_eq_iff)

subsection \<open>The VAD path of a device chunk\<close>

text \<open>
  C10, as the source has it. For every positive device rate whose derived chunk
  size is at least 1 (that is, from 32 Hz on), a chunk of that size resamples to
  \<open>\<lfloor>chunk_size * 16000 / device_rate\<rfloor>\<close> samples (the resampler returning as many as
  it is asked for when asked for at least one), which is at least 1 and at most
  512; so the frame handed to the VAD iterator is the whole resampled chunk
  followed by zeros, and nothing captured is cut off. (The bound on the rate is the
  one within which the double quotients have the integer parts of the exact ones.)
\<close>

theorem vad_path_only_pads:
  assumes "init ext dev thr sil pad = Inr m"
    and "0 < device_sample_rate m"
    and "1 \<le> chunk_size m"
    and "device_sample_rate m \<le> 2 ^ 43"
    and "int (length chunk) = chunk_size m"
    and "\<forall>xs n. 1 \<le> n \<longrightarrow> (\<exists>ys. signal_resample ext xs n = Inr ys \<and> length ys = nat n)"
  shows "\<exists>r. resample ext chunk (device_sample_rate m) 16000 = Inr r
           \<and> int (length r) = chunk_size m * 16000 div device_sample_rate m
           \<and> 1 \<le> length r \<and> length r \<le> 512
           \<and> resample_to_vad_chunk ext m chunk
               = Inr (astype_float32 (r @ replicate (512 - length r) 0))"
proof -
  define rate where "rate = device_sample_rate m"
  define c where "c = chunk_size m"
  have pos: "0 < rate"
    using assms(2) by (simp add: rate_def)
  have c: "c = 512 * rate div 16000"
    using assms(1,2) by (simp add: chunk_size_init rate_def c_def)
  have c1: "1 \<le> c"
    using assms(3) by (simp add: c_def)
  have up: "c * 16000 \<le> 512 * rate"
    unfolding c by (simp add: mult.commute [of _ 16000])
  have "16000 * (512 * rate div 16000) + 512 * rate mod 16000 = 512 * rate"
    by (rule mult_div_mod_eq)
  then have "16000 * c + 512 * rate mod 16000 = 512 * rate"
    by (simp only: c)
  moreover have "512 * rate mod 16000 < 16000"
    by (rule pos_mod_bound) simp
  ultimately have low: "rate \<le> c * 16000"
    using c1 pos by linarith
  have "c * 16000 div rate \<le> 512 * rate div rate"
    using up pos by (rule zdiv_mono1)
  then have le: "c * 16000 div rate \<le> 512"
    using pos by simp
  have ge: "1 \<le> c * 16000 div rate"
    using low pos pos_imp_zdiv_pos_iff [of rate "c * 16000"] by simp
  obtain r where r: "resample ext chunk rate 16000 = Inr r"
    and lr: "int (length r) = c * 16000 div rate"
  proof (cases "rate = 16000")
    case True
    then have "resample ext chunk rate 16000 = Inr chunk"
      by (simp add: resample_same_rate)
    moreover have "int (length chunk) = c * 16000 div rate"
      using True assms(5) by (simp add: c_def)
    ultimately show ?thesis
      by (rule that)
  next
    case False
    have "1 \<le> int (length chunk) * 16000 div rate"
      using ge assms(5) by (simp add: c_def)
    from length_resample [OF pos _ False this assms(6)]
    obtain ys where "resample ext chunk rate 16000 = Inr ys"
      and "int (length ys) = int (length chunk) * 16000 div rate"
      by auto
    then show ?thesis
      using assms(5) by (auto simp: c_def intro: that)
  qed
  have l512: "length r \<le> 512"
    using lr le by simp
  have l1: "1 \<le> length r"
    using lr ge by simp
  have fit: "fit_to_frame 512 r = r @ replicate (512 - length r) 0"
    using l512 by (auto simp: fit_to_frame_def nat_diff_distrib')
  have "resample_to_vad_chunk ext m chunk = Inr (astype_float32 (fit_to_frame 512 r))"
    using r
    by (cases "rate = 16000")
      (simp_all add: resample_to_vad_chunk_def VAD_SAMPLE_RATE_def VAD_CHUNK_SAMPLES_def
        rate_def resample_same_rate)
  with r lr l1 l512 fit show ?thesis
    by (simp add: rate_def c_def)
qed

theorem vad_path_only_pads_witness:
  "init (test_externals 44100) None (1 / 2) 500 100 = Inr test_microphone
   \<and> (\<exists>r. resample (test_externals 44100) (replicate 1411 0) 44100 16000 = Inr r
          \<and> int (length r) = 511
          \<and> 1 \<le> length r \<and> length r \<le> 512
          \<and> resample_to_vad_chunk (test_externals 44100) test_microphone (replicate 1411 0)
              = Inr (astype_float32 (r @ replicate (512 - length r) 0)))"
proof -
  have i: "init (test_externals 44100) None (1 / 2) 500 100 = Inr test_microphone"
    by (simp add: init_def test_externals_def test_microphone_def Let_def py_int_def
        VAD_CHUNK_SAMPLES_def VAD_SAMPLE_RATE_def)
  have p: "0 < device_sample_rate test_microphone"
    by (simp add: test_microphone_def)
  have c: "1 \<le> chunk_size test_microphone"
    by (simp add: test_microphone_def)
  have b: "device_sample_rate test_microphone \<le> 2 ^ 43"
    by (simp add: test_microphone_def)
  have l: "int (length (replicate 1411 (0::sample))) = chunk_size test_microphone"
    by (simp add: test_microphone_def)
  have h: "\<forall>xs n. 1 \<le> n \<longrightarrow>
      (\<exists>ys. signal_resample (test_externals 44100) xs n = Inr ys \<and> length ys = nat n)"
    by (simp add: test_externals_def)
  from vad_path_only_pads [OF i p c b l h] show ?thesis
    using i by (simp add: test_microphone_def)
qed

text \<open>
  C10, for every positive rate, fails. At 31 Hz the derived chunk size is 0, the
  resampler is asked for no samples and raises: no frame reaches the VAD iterator,
  padded or not.
\<close>

theorem vad_path_rate_31_counterexample:
  "init (test_externals 31) None (1 / 2) 500 100
     = Inr (test_microphone\<lparr>device_sample_rate := 31, chunk_size := 0\<rparr>)
   \<and> resample (test_externals 31) [] 31 16000 = Inl ValueError
   \<and> resample_to_vad_chunk (test_externals 31)
        (test_microphone\<lparr>device_sample_rate := 31, chunk_size := 0\<rparr>) []
       = Inl ValueError"
  by (simp add: init_def resample_def resample_to_vad_chunk_def test_externals_def
      test_microphone_def Let_def py_int_def VAD_CHUNK_SAMPLES_def VAD_SAMPLE_RATE_def)

end
